theory Spec2Isabelle
  imports Complex_Main "HOL-Library.List_Lexorder"
begin

section \<open>Numbers, missing values and errors\<close>

text \<open>
  The notebooks compute on pandas columns of float64. A cell is modelled as a
  \<^typ>\<open>real option\<close>: \<open>Some x\<close> is the number \<open>x\<close> and \<open>None\<close> is the missing value
  (NaN). Arithmetic is exact (rounding is not modelled) and NaN propagates through
  every operation; a comparison with NaN is false, as in IEEE arithmetic. A division by
  zero has no finite result and is \<open>None\<close> too.
\<close>

type_synonym cell = "real option"

datatype error = ValueError | AttributeError | NameError

definition fadd :: "cell \<Rightarrow> cell \<Rightarrow> cell" where
  "fadd a b = (case (a, b) of (Some x, Some y) \<Rightarrow> Some (x + y) | _ \<Rightarrow> None)"

definition fsub :: "cell \<Rightarrow> cell \<Rightarrow> cell" where
  "fsub a b = (case (a, b) of (Some x, Some y) \<Rightarrow> Some (x - y) | _ \<Rightarrow> None)"

definition fmul :: "cell \<Rightarrow> cell \<Rightarrow> cell" where
  "fmul a b = (case (a, b) of (Some x, Some y) \<Rightarrow> Some (x * y) | _ \<Rightarrow> None)"

definition fdiv :: "cell \<Rightarrow> cell \<Rightarrow> cell" where
  "fdiv a b = (case (a, b) of
       (Some x, Some y) \<Rightarrow> if y = 0 then None else Some (x / y)
     | _ \<Rightarrow> None)"

definition fle :: "cell \<Rightarrow> cell \<Rightarrow> bool" where
  "fle a b = (case (a, b) of (Some x, Some y) \<Rightarrow> x \<le> y | _ \<Rightarrow> False)"

definition fgt :: "cell \<Rightarrow> cell \<Rightarrow> bool" where
  "fgt a b = (case (a, b) of (Some x, Some y) \<Rightarrow> x > y | _ \<Rightarrow> False)"

definition fge :: "cell \<Rightarrow> cell \<Rightarrow> bool" where
  "fge a b = (case (a, b) of (Some x, Some y) \<Rightarrow> x \<ge> y | _ \<Rightarrow> False)"

text \<open>A missing summand adds nothing to a sum that skips missing values.\<close>

definition nan_to_zero :: "cell \<Rightarrow> real" where
  "nan_to_zero v = (case v of None \<Rightarrow> 0 | Some x \<Rightarrow> x)"

text \<open>\<open>Series.dropna()\<close>: the values that are present, in order.\<close>

fun dropna :: "'a option list \<Rightarrow> 'a list" where
  "dropna [] = []"
| "dropna (None # xs) = dropna xs"
| "dropna (Some x # xs) = x # dropna xs"

text \<open>
  \<open>Series.mean()\<close> skips missing values; the mean of no value is NaN.
\<close>

definition pd_mean :: "cell list \<Rightarrow> cell" where
  "pd_mean xs = (let ys = dropna xs in
     if ys = [] then None else Some (sum_list ys / real (length ys)))"



section \<open>Topic 5: shrinking means and covariances\<close>

text \<open>
  A dataframe of asset returns is the list of its columns, one per asset; \<open>df.mean()\<close>
  is the series of the column means.
\<close>

type_synonym returns_frame = "cell list list"

definition df_mean :: "returns_frame \<Rightarrow> cell list" where
  "df_mean df = map pd_mean df"

text \<open>
  \<open>df.cov()\<close>: the sample covariance of every pair of columns over the rows where both
  are present; NaN when fewer than two rows are.
\<close>

definition complete_pairs :: "cell list \<Rightarrow> cell list \<Rightarrow> (real \<times> real) list" where
  "complete_pairs xs ys =
     concat (map (\<lambda>(a, b). case (a, b) of (Some x, Some y) \<Rightarrow> [(x, y)] | _ \<Rightarrow> [])
                 (zip xs ys))"

definition cov_pair :: "cell list \<Rightarrow> cell list \<Rightarrow> cell" where
  "cov_pair xs ys = (let ps = complete_pairs xs ys; n = length ps in
     if n < 2 then None
     else let mx = sum_list (map fst ps) / real n; my = sum_list (map snd ps) / real n in
       Some (sum_list (map (\<lambda>(x, y). (x - mx) * (y - my)) ps) / real (n - 1)))"

definition df_cov :: "returns_frame \<Rightarrow> cell list list" where
  "df_cov df = map (\<lambda>xs. map (\<lambda>ys. cov_pair xs ys) df) df"

text \<open>\<open>np.eye(n, dtype=bool)\<close>: the diagonal mask.\<close>

definition np_eye :: "nat \<Rightarrow> bool list list" where
  "np_eye n = map (\<lambda>i. map (\<lambda>j. i = j) [0..<n]) [0..<n]"

text \<open>
  \<open>cov.values[~diagonal_mask] *= (1 - shrink_pct)\<close>: every entry where the mask is
  false is multiplied in place.
\<close>

definition scale_unmasked :: "bool list list \<Rightarrow> real \<Rightarrow> cell list list \<Rightarrow> cell list list" where
  "scale_unmasked msk k m =
     map (\<lambda>(row, mrow). map (\<lambda>(v, d). if \<not> d then fmul v (Some k) else v) (zip row mrow))
         (zip m msk)"

text \<open>
  \<open>compute_cov_matrix(df, shrink_pct)\<close>. The argument \<open>df\<close> may be Python's \<open>None\<close>.
\<close>

definition compute_cov_matrix :: "returns_frame option \<Rightarrow> real \<Rightarrow> error + cell list list" where
  "compute_cov_matrix df shrink_pct =
     (case df of
        None \<Rightarrow> Inl ValueError
      | Some d \<Rightarrow>
          if \<not> (0 \<le> shrink_pct \<and> shrink_pct \<le> 1) then Inl ValueError
          else
            let cov = df_cov d in
            if shrink_pct > 0
            then let diagonal_mask = np_eye (length cov)
                 in Inr (scale_unmasked diagonal_mask (1 - shrink_pct) cov)
            else Inr cov)"

text \<open>
  \<open>compute_mean_returns(df, shrink_pct)\<close>. \<open>df.mean()\<close> is evaluated first, so a
  \<open>None\<close> dataframe fails there with an AttributeError.
\<close>

definition compute_mean_returns :: "returns_frame option \<Rightarrow> real \<Rightarrow> error + cell list" where
  "compute_mean_returns df shrink_pct =
     (case df of
        None \<Rightarrow> Inl AttributeError
      | Some d \<Rightarrow>
          let mean = df_mean d in
          if shrink_pct > 1 then Inl ValueError
          else if shrink_pct > 0
          then let overall_mean = pd_mean mean
               in Inr (map (\<lambda>m. fadd (fmul (Some (1 - shrink_pct)) m)
                                      (fmul (Some shrink_pct) overall_mean)) mean)
          else Inr mean)"

section \<open>Sharpe ratios\<close>




text \<open>The mean and the sample standard deviation of a list of numbers.\<close>

definition mean :: "real list \<Rightarrow> real" where
  "mean xs = sum_list xs / real (length xs)"


section \<open>Panels of monthly stock data\<close>

text \<open>
  The CRSP panel is a dataframe indexed by (PERMNO, date). A row carries its two index
  levels and its columns by name; a column the frame does not have reads as missing.
  A date is a month, counted as \<open>12 * year + (month - 1)\<close>, so that the next month is
  \<open>date + 1\<close>. A frame is the list of its rows in index order.
\<close>

record row =
  permno :: nat
  date :: nat
  col :: "string \<Rightarrow> cell"

type_synonym frame = "row list"

definition label :: "row \<Rightarrow> nat \<times> nat" where
  "label r = (permno r, date r)"

definition month_of :: "nat \<Rightarrow> nat" where
  "month_of d = d mod 12 + 1"

text \<open>\<open>df.loc[..., c] = v\<close> on one row.\<close>

definition set_col :: "string \<Rightarrow> cell \<Rightarrow> row \<Rightarrow> row" where
  "set_col c v r = r\<lparr>col := (col r)(c := v)\<rparr>"

text \<open>A row written out: its index levels and the columns that are present.\<close>

definition mk_row :: "nat \<Rightarrow> nat \<Rightarrow> (string \<times> real) list \<Rightarrow> row" where
  "mk_row p d kvs = \<lparr>permno = p, date = d, col = map_of kvs\<rparr>"


definition column :: "string \<Rightarrow> frame \<Rightarrow> cell list" where
  "column c df = map (\<lambda>r. col r c) df"

subsection \<open>Library operations\<close>

text \<open>
  \<open>np.percentile(x, q)\<close> with the default linear interpolation, on a non-empty array:
  the value at the fractional rank \<open>(n - 1) * q / 100\<close> of the sorted data.
\<close>

definition np_percentile :: "real list \<Rightarrow> real \<Rightarrow> real" where
  "np_percentile xs q =
     (let s = sort xs; n = length s;
          h = (real n - 1) * q / 100;
          lo = nat \<lfloor>h\<rfloor>; hi = min (lo + 1) (n - 1)
      in s ! lo + (h - real lo) * (s ! hi - s ! lo))"

text \<open>
  A series indexed by date is a list of (date, value). \<open>s.dropna().groupby(level='date')\<close>
  collects, for a date, the values present on it.
\<close>

definition date_values :: "(nat \<times> cell) list \<Rightarrow> nat \<Rightarrow> real list" where
  "date_values s d = dropna (map snd (filter (\<lambda>(d', v). d' = d) s))"

text \<open>
  \<open>grp.apply(lambda x: np.percentile(x, pct))\<close>: a series with one value for every date
  that has a group, read here as a function of the date (missing where the date has no
  group). \<open>np.percentile\<close> raises ValueError for a percentile outside \<open>[0, 100]\<close>, which
  happens as soon as there is a group to apply it to.
\<close>

definition percentile_by_date :: "(nat \<times> cell) list \<Rightarrow> real \<Rightarrow> nat \<Rightarrow> cell" where
  "percentile_by_date s pct d =
     (let xs = date_values s d in if xs = [] then None else Some (np_percentile xs pct))"

definition apply_percentile :: "(nat \<times> cell) list \<Rightarrow> real \<Rightarrow> error + (nat \<Rightarrow> cell)" where
  "apply_percentile s pct =
     (if dropna (map snd s) \<noteq> [] \<and> (pct < 0 \<or> 100 < pct) then Inl ValueError
      else Inr (percentile_by_date s pct))"

text \<open>
  \<open>g.shift(-1)\<close> on a column grouped by key: every row reads the value of the next row
  of its group, and the last row of a group reads missing.
\<close>

fun shift_next :: "('k \<times> cell) list \<Rightarrow> cell list" where
  "shift_next [] = []"
| "shift_next ((k, v) # xs) =
     (case find (\<lambda>(k', _). k' = k) xs of None \<Rightarrow> None | Some (_, v') \<Rightarrow> v') # shift_next xs"

text \<open>
  \<open>g.shift(1)\<close> on a column grouped by key: every row reads the value of the previous
  row of its group. The scan remembers the last value seen for each key.
\<close>

fun shift_prev_from :: "('k \<Rightarrow> cell) \<Rightarrow> ('k \<times> cell) list \<Rightarrow> cell list" where
  "shift_prev_from seen [] = []"
| "shift_prev_from seen ((k, v) # xs) = seen k # shift_prev_from (seen(k := v)) xs"


text \<open>
  \<open>g.ffill(limit=lim)\<close> on a column grouped by key: a missing value takes the last
  value present before it in its group, unless more than \<open>lim\<close> missing rows of the
  group have passed since. The scan remembers, for each key, the last value present and
  the number of missing rows of the group seen after it.
\<close>

definition ffill_out :: "nat \<Rightarrow> ('k \<Rightarrow> (real \<times> nat) option) \<Rightarrow> 'k \<times> cell \<Rightarrow> cell" where
  "ffill_out lmt seen p =
     (case snd p of
        Some x \<Rightarrow> Some x
      | None \<Rightarrow> (case seen (fst p) of
                   None \<Rightarrow> None
                 | Some (x, n) \<Rightarrow> if n < lmt then Some x else None))"

definition ffill_step ::
  "('k \<Rightarrow> (real \<times> nat) option) \<Rightarrow> 'k \<times> cell \<Rightarrow> ('k \<Rightarrow> (real \<times> nat) option)" where
  "ffill_step seen p =
     (case snd p of
        Some x \<Rightarrow> seen(fst p \<mapsto> (x, 0))
      | None \<Rightarrow> (case seen (fst p) of
                   None \<Rightarrow> seen
                 | Some (x, n) \<Rightarrow> seen(fst p \<mapsto> (x, Suc n))))"

fun ffill_from :: "nat \<Rightarrow> ('k \<Rightarrow> (real \<times> nat) option) \<Rightarrow> ('k \<times> cell) list \<Rightarrow> cell list" where
  "ffill_from lmt seen [] = []"
| "ffill_from lmt seen (p # xs) = ffill_out lmt seen p # ffill_from lmt (ffill_step seen p) xs"

definition groupby_ffill :: "nat \<Rightarrow> ('k \<times> cell) list \<Rightarrow> cell list" where
  "groupby_ffill lmt xs = ffill_from lmt Map.empty xs"

text \<open>
  \<open>g.shift(n)\<close> on a column grouped by key, for \<open>n > 0\<close>: every row reads the value
  \<open>n\<close> rows earlier in its group. The scan remembers the last \<open>n\<close> values of each key,
  the most recent first.
\<close>

fun shift_by_from :: "nat \<Rightarrow> ('k \<Rightarrow> cell list) \<Rightarrow> ('k \<times> cell) list \<Rightarrow> cell list" where
  "shift_by_from n seen [] = []"
| "shift_by_from n seen ((k, v) # xs) =
     (if length (seen k) < n then None else seen k ! (n - 1))
       # shift_by_from n (seen(k := v # take (n - 1) (seen k))) xs"

definition shift_by :: "nat \<Rightarrow> ('k \<times> cell) list \<Rightarrow> cell list" where
  "shift_by n xs = shift_by_from n (\<lambda>_. []) xs"

text \<open>
  \<open>df.ffill(limit=lmt)\<close> on a frame that is not grouped fills down the rows whatever
  their key: it is the grouped fill with a single group.
\<close>

definition ffill :: "nat \<Rightarrow> cell list \<Rightarrow> cell list" where
  "ffill lmt vs = groupby_ffill lmt (map (\<lambda>v. ((), v)) vs)"

subsection \<open>Next month's return\<close>

text \<open>
  Topic 2 and the first two statements of \<open>compute_portfolio_returns\<close> in Topic 4 add
  the same two columns to the frame: \<open>retnm\<close>, the return \<open>ret\<close> shifted by \<open>-1\<close> within
  each PERMNO, and \<open>me_x_retnm\<close>, its product with \<open>me\<close>.
\<close>

definition with_retnm :: "frame \<Rightarrow> frame" where
  "with_retnm df =
     (let retnm = shift_next (map (\<lambda>r. (permno r, col r ''ret'')) df);
          df1 = map (\<lambda>(r, v). set_col ''retnm'' v r) (zip df retnm)
      in map (\<lambda>r. set_col ''me_x_retnm'' (fmul (col r ''me'') (col r ''retnm'')) r) df1)"

section \<open>Topic 2: the short-term reversal strategy\<close>

text \<open>
  The 10th and 90th percentiles of the returns present in each month, merged back into the
  frame as the columns \<open>p10\<close> and \<open>p90\<close>.
\<close>

definition ret_series :: "frame \<Rightarrow> (nat \<times> cell) list" where
  "ret_series df = map (\<lambda>r. (date r, col r ''ret'')) df"


text \<open>
  The 0/1 columns \<open>long\<close> and \<open>short\<close> and their difference \<open>position\<close>. A comparison
  with a missing value is false, and \<open>astype('int')\<close> turns it into 0.
\<close>

definition as_int :: "bool \<Rightarrow> cell" where
  "as_int b = Some (if b then 1 else 0)"




text \<open>
  \<open>df.drop(columns=[...])\<close> and \<open>left.merge(right, left_index=True, right_index=True)\<close>:
  an inner join on the index labels that brings in the columns of the right frame.
\<close>

definition drop_columns :: "string list \<Rightarrow> row \<Rightarrow> row" where
  "drop_columns cs r = fold (\<lambda>c r'. set_col c None r') cs r"














subsection \<open>The strategy, read off the panel\<close>

text \<open>
  The previous row of the same stock, for every row of a frame (none for the first row of
  a stock).
\<close>

fun prev_rows_from :: "(nat \<Rightarrow> row option) \<Rightarrow> frame \<Rightarrow> row option list" where
  "prev_rows_from seen [] = []"
| "prev_rows_from seen (r # rs) = seen (permno r) # prev_rows_from (seen(permno r := Some r)) rs"

definition prev_rows :: "frame \<Rightarrow> row option list" where
  "prev_rows df = prev_rows_from (\<lambda>p. None) df"

text \<open>
  A stock is long in a month when its return is at or below the 10th percentile of the
  month's returns and short when it is at or above the 90th. Its weight in a portfolio is
  one over the number of stocks in the portfolio that month, and zero outside it.
\<close>

definition is_long :: "frame \<Rightarrow> row \<Rightarrow> bool" where
  "is_long df r = fle (col r ''ret'') (percentile_by_date (ret_series df) 10 (date r))"

definition is_short :: "frame \<Rightarrow> row \<Rightarrow> bool" where
  "is_short df r = fge (col r ''ret'') (percentile_by_date (ret_series df) 90 (date r))"

definition holding_weight :: "(frame \<Rightarrow> row \<Rightarrow> bool) \<Rightarrow> frame \<Rightarrow> row \<Rightarrow> cell" where
  "holding_weight held df r =
     fdiv (as_int (held df r))
          (Some (real (length (filter (\<lambda>r'. date r' = date r \<and> held df r') df))))"


text \<open>
  A row of the frame after the indicator columns are added, and after the weights are
  merged in, in terms of the row of the panel it comes from.
\<close>

definition position_row :: "frame \<Rightarrow> row \<Rightarrow> row" where
  "position_row df r =
     (let r0 = set_col ''p90'' (percentile_by_date (ret_series df) 90 (date r))
                 (set_col ''p10'' (percentile_by_date (ret_series df) 10 (date r)) r);
          r1 = set_col ''long'' (as_int (fle (col r0 ''ret'') (col r0 ''p10''))) r0;
          r2 = set_col ''short'' (as_int (fge (col r1 ''ret'') (col r1 ''p90''))) r1
      in set_col ''position'' (fsub (col r2 ''long'') (col r2 ''short'')) r2)"

definition weighted_row :: "frame \<Rightarrow> row \<Rightarrow> row" where
  "weighted_row df r =
     set_col ''short'' (holding_weight is_short df r)
       (set_col ''long'' (holding_weight is_long df r)
          (drop_columns [''p10'', ''p90'', ''long'', ''short''] (position_row df r)))"

section \<open>Topic 4: lagging the accounting data\<close>

text \<open>
  \<open>compustat = compustat.groupby(level='PERMNO').shift(6).ffill(limit=23)\<close>, on a frame
  reindexed to one row for every month of every firm: each column is shifted by six rows
  within its PERMNO, and the frame that results is filled forward, with no grouping, for
  up to 23 rows. The statement treats every column alike; this is its effect on the
  column \<open>c\<close>.
\<close>

definition lag_compustat :: "string \<Rightarrow> frame \<Rightarrow> frame" where
  "lag_compustat c df =
     (let shifted = shift_by 6 (map (\<lambda>r. (permno r, col r c)) df);
          filled = ffill 23 shifted
      in map (\<lambda>(r, v). set_col c v r) (zip df filled))"



section \<open>Topic 4: sorting stocks into portfolios\<close>

text \<open>
  \<open>sortvar\<close>: the sorting column, of the NYSE rows only when \<open>nyse\<close> is set, as a series
  by date.
\<close>

definition sortvar_of :: "bool \<Rightarrow> string \<Rightarrow> frame \<Rightarrow> (nat \<times> cell) list" where
  "sortvar_of nyse c df =
     map (\<lambda>r. (date r, col r c))
         (if nyse then filter (\<lambda>r. col r ''EXCHCD'' = Some 1) df else df)"

text \<open>
  \<open>df.merge(breakpoint, left_on='date', right_index=True, how='left')\<close>: a copy of the
  frame, every row with the breakpoint of its date beside it.
\<close>

definition merge_breakpoint :: "frame \<Rightarrow> (nat \<Rightarrow> cell) \<Rightarrow> (row \<times> cell) list" where
  "merge_breakpoint df breakpoint = map (\<lambda>r. (r, breakpoint (date r))) df"

text \<open>\<open>assigned[assigned].index\<close>: the index labels of the rows where the mask holds.\<close>

definition assigned_index :: "(row \<times> cell \<Rightarrow> bool) \<Rightarrow> (row \<times> cell) list \<Rightarrow> (nat \<times> nat) list" where
  "assigned_index assigned df_merged = map (\<lambda>(r, b). label r) (filter assigned df_merged)"

text \<open>\<open>df.loc[labels, id_col] = group_id\<close>: every row that carries one of the labels.\<close>

definition assign_at :: "(nat \<times> nat) list \<Rightarrow> string \<Rightarrow> cell \<Rightarrow> frame \<Rightarrow> frame" where
  "assign_at labels id_col v df =
     map (\<lambda>r. if label r \<in> set labels then set_col id_col v r else r) df"


text \<open>
  The annual step: assignments outside June are erased, then every stock's assignment is
  forward filled over at most 11 rows of the stock.
\<close>

definition annual_carry :: "string \<Rightarrow> frame \<Rightarrow> frame" where
  "annual_carry id_col df =
     (let df' = map (\<lambda>r. if month_of (date r) \<noteq> 6 then set_col id_col None r else r) df;
          filled = groupby_ffill 11 (map (\<lambda>r. (permno r, col r id_col)) df')
      in map (\<lambda>(r, v). set_col id_col v r) (zip df' filled))"


subsection \<open>The assignment, row by row\<close>

text \<open>
  The bucket of a value, given the breakpoints of its date in the order of the
  percentiles: the first breakpoint the value is at or below decides, counted from \<open>g\<close>;
  a value above the last breakpoint and at or below none of them goes to the bucket after
  the last one. A missing value or missing breakpoints give no bucket.
\<close>

fun first_bucket :: "cell \<Rightarrow> cell list \<Rightarrow> nat \<Rightarrow> cell" where
  "first_bucket v [] g = None"
| "first_bucket v (b # bs) g = (if fle v b then Some (real g) else first_bucket v bs (Suc g))"

definition bucket_of :: "cell \<Rightarrow> cell list \<Rightarrow> cell" where
  "bucket_of v bs =
     (case first_bucket v bs 1 of
        Some g \<Rightarrow> Some g
      | None \<Rightarrow> if bs \<noteq> [] \<and> fgt v (last bs) then Some (real (length bs + 1)) else None)"

text \<open>
  One iteration of the loop seen from a single row, and the whole loop: a row that has no
  group yet and whose value is at or below the breakpoint of its date takes the group.
\<close>

definition step_row :: "string \<Rightarrow> string \<Rightarrow> (nat \<Rightarrow> cell) \<Rightarrow> nat \<Rightarrow> row \<Rightarrow> row" where
  "step_row c id_col bp g r =
     (if col r id_col = None \<and> fle (col r c) (bp (date r))
      then set_col id_col (Some (real g)) r else r)"

fun loop_row :: "string \<Rightarrow> string \<Rightarrow> (nat \<Rightarrow> cell) list \<Rightarrow> nat \<Rightarrow> row \<Rightarrow> row" where
  "loop_row c id_col [] g r = r"
| "loop_row c id_col (bp # bps) g r = loop_row c id_col bps (Suc g) (step_row c id_col bp g r)"

section \<open>Topic 4: value-weighted portfolio returns\<close>

text \<open>
  The mask \<open>ok\<close>: it starts from \<open>me\<close> being present and is narrowed by the loop over
  \<open>['retnm'] + sort_variables\<close>.
\<close>

definition required_ok :: "string list \<Rightarrow> row \<Rightarrow> bool" where
  "required_ok sort_variables r =
     fold (\<lambda>required_var ok. ok \<and> col r required_var \<noteq> None)
          (''retnm'' # sort_variables) (col r ''me'' \<noteq> None)"

text \<open>
  \<open>groupby(by=['date'] + sort_groups)[['me', 'me_x_retnm']].sum()\<close>. The key of a row is
  its date with its values in the grouping columns; a row with a missing value in one of
  them belongs to no group. The sums are accumulated group by group, and a missing
  summand adds nothing.
\<close>

definition group_key :: "string list \<Rightarrow> row \<Rightarrow> (nat \<times> real list) option" where
  "group_key sort_groups r =
     (if list_all (\<lambda>g. col r g \<noteq> None) sort_groups
      then Some (date r, map (\<lambda>g. the (col r g)) sort_groups) else None)"

fun add_sums :: "'k \<Rightarrow> real \<times> real \<Rightarrow> ('k \<times> real \<times> real) list \<Rightarrow> ('k \<times> real \<times> real) list" where
  "add_sums k (a, b) [] = [(k, a, b)]"
| "add_sums k (a, b) ((k', a', b') # acc) =
     (if k' = k then (k', a' + a, b' + b) # acc else (k', a', b') # add_sums k (a, b) acc)"

definition sum_step ::
  "string list \<Rightarrow> ((nat \<times> real list) \<times> real \<times> real) list \<Rightarrow> row
     \<Rightarrow> ((nat \<times> real list) \<times> real \<times> real) list" where
  "sum_step sort_groups acc r =
     (case group_key sort_groups r of
        None \<Rightarrow> acc
      | Some k \<Rightarrow> add_sums k (nan_to_zero (col r ''me''), nan_to_zero (col r ''me_x_retnm'')) acc)"

definition groupby_sum :: "string list \<Rightarrow> frame \<Rightarrow> ((nat \<times> real list) \<times> real \<times> real) list" where
  "groupby_sum sort_groups df = foldl (sum_step sort_groups) [] df"

text \<open>
  The result is a frame with one row for each date and one column for each combination of
  groups. \<open>unstack\<close> sorts both; a combination that a date does not have is missing.
\<close>

record pivot =
  index :: "nat list"
  columns :: "real list list"
  cells :: "cell list list"

definition unstack :: "((nat \<times> real list) \<times> cell) list \<Rightarrow> pivot" where
  "unstack s =
     (let idx = sort (remdups (map (\<lambda>(k, v). fst k) s));
          cols = sort (remdups (map (\<lambda>(k, v). snd k) s))
      in \<lparr>index = idx, columns = cols,
          cells = map (\<lambda>d. map (\<lambda>b. case map_of s (d, b) of None \<Rightarrow> None | Some v \<Rightarrow> v) cols)
                      idx\<rparr>)"

text \<open>\<open>DataFrame.shift(1)\<close>: every row moves one position down the index.\<close>

definition shift_rows :: "pivot \<Rightarrow> pivot" where
  "shift_rows p =
     p\<lparr>cells := take (length (cells p)) (replicate (length (columns p)) None # cells p)\<rparr>"





definition vw_return :: "frame \<Rightarrow> cell" where
  "vw_return m =
     (if m = [] then None
      else fdiv (Some (sum_list (map (\<lambda>r. the (col r ''me'') * the (col r ''retnm'')) m)))
                (Some (sum_list (map (\<lambda>r. the (col r ''me'')) m))))"



section \<open>Topic 4: the notebook's state\<close>

text \<open>
  The two functions of Topic 4 work on shared state. A DataFrame is passed by reference:
  \<open>portfolio_sort\<close> writes the new column into the caller's frame and returns the
  reference it was given, and \<open>compute_portfolio_returns\<close> adds \<open>retnm\<close> and
  \<open>me_x_retnm\<close> to the caller's frame before it filters a copy. The list
  \<open>sort_variables\<close> is a name of the module, read when the mask is built and unbound
  until a cell has assigned it. The state is the store of frames by address and that
  name.
\<close>

record world =
  frames :: "nat \<Rightarrow> frame"
  module_sort_variables :: "string list option"

text \<open>
  The loop of \<open>portfolio_sort\<close> on the frame at address \<open>df\<close>. Its local variables are
  the next group id and the merged copy of the last iteration; the frame itself changes in
  the store. When \<open>np.percentile\<close> raises, the groups assigned so far stay in the frame.
\<close>

fun sort_loop_st ::
  "(nat \<times> cell) list \<Rightarrow> string \<Rightarrow> string \<Rightarrow> nat \<Rightarrow> real list
     \<Rightarrow> nat \<times> (row \<times> cell) list option \<Rightarrow> world
     \<Rightarrow> (error + nat \<times> (row \<times> cell) list option) \<times> world" where
  "sort_loop_st s c id_col df [] loc w = (Inr loc, w)"
| "sort_loop_st s c id_col df (pct # pcts) (group_id, old) w =
     (case apply_percentile s pct of
        Inl e \<Rightarrow> (Inl e, w)
      | Inr breakpoint \<Rightarrow>
          let df_merged = merge_breakpoint (frames w df) breakpoint;
              assigned = (\<lambda>(r, b). col r id_col = None \<and> fle (col r c) b);
              w' = w\<lparr>frames := (frames w)
                      (df := assign_at (assigned_index assigned df_merged) id_col
                               (Some (real group_id)) (frames w df))\<rparr>
          in sort_loop_st s c id_col df pcts (group_id + 1, Some df_merged) w')"

text \<open>
  \<open>portfolio_sort\<close> as the notebook runs it: the argument \<open>df\<close> is an address, every
  assignment to \<open>df[id_col]\<close> and \<open>df.loc[...]\<close> changes the frame stored there, and the
  value returned is the same address.
\<close>

definition portfolio_sort_st ::
  "nat \<Rightarrow> string \<Rightarrow> bool \<Rightarrow> real list \<Rightarrow> string \<Rightarrow> bool \<Rightarrow> world \<Rightarrow> (error + nat) \<times> world" where
  "portfolio_sort_st df c nyse percentiles id_col annual w =
     (let sortvar = sortvar_of nyse c (frames w df);
          w0 = w\<lparr>frames := (frames w)(df := map (set_col id_col None) (frames w df))\<rparr>
      in case sort_loop_st sortvar c id_col df percentiles (1, None) w0 of
           (Inl e, w1) \<Rightarrow> (Inl e, w1)
         | (Inr (group_id, None), w1) \<Rightarrow> (Inl NameError, w1)
         | (Inr (group_id, Some df_merged), w1) \<Rightarrow>
             let assigned = (\<lambda>(r, b). col r id_col = None \<and> fgt (col r c) b);
                 w2 = w1\<lparr>frames := (frames w1)
                         (df := assign_at (assigned_index assigned df_merged) id_col
                                  (Some (real group_id)) (frames w1 df))\<rparr>;
                 w3 = (if annual
                       then w2\<lparr>frames := (frames w2)(df := annual_carry id_col (frames w2 df))\<rparr>
                       else w2)
             in (Inr df, w3))"

text \<open>
  \<open>compute_portfolio_returns\<close> as the notebook runs it. The two new columns are written
  into the caller's frame; \<open>df = df[ok]\<close> binds the local name to a filtered copy, and
  the result is a new frame. Reading \<open>sort_variables\<close> while it is unbound raises
  NameError, after the columns have been written.
\<close>

definition compute_portfolio_returns_st ::
  "nat \<Rightarrow> string list \<Rightarrow> world \<Rightarrow> (error + pivot) \<times> world" where
  "compute_portfolio_returns_st df sort_groups w =
     (let w1 = w\<lparr>frames := (frames w)(df := with_retnm (frames w df))\<rparr>
      in case module_sort_variables w1 of
           None \<Rightarrow> (Inl NameError, w1)
         | Some sort_variables \<Rightarrow>
             let df2 = filter (required_ok sort_variables) (frames w1 df);
                 sums' = groupby_sum sort_groups df2;
                 portfolio_returns =
                   map (\<lambda>(k, me, me_x_retnm). (k, fdiv (Some me_x_retnm) (Some me))) sums'
             in (Inr (shift_rows (unstack portfolio_returns)), w1))"

text \<open>
  A cell of the notebook with one sort: the frame is sorted, the name is bound to the
  result, and the returns of the groups are computed from it.
\<close>

definition sort_then_compute ::
  "nat \<Rightarrow> string \<Rightarrow> bool \<Rightarrow> real list \<Rightarrow> string \<Rightarrow> bool \<Rightarrow> world \<Rightarrow> (error + pivot) \<times> world" where
  "sort_then_compute cs_crsp c nyse percentiles id_col annual w =
     (case portfolio_sort_st cs_crsp c nyse percentiles id_col annual w of
        (Inl e, w1) \<Rightarrow> (Inl e, w1)
      | (Inr cs_crsp', w1) \<Rightarrow> compute_portfolio_returns_st cs_crsp' [id_col] w1)"

section \<open>The description: three functions without side effects\<close>

text \<open>
  The description of the computation as three functions of their arguments, written from
  its words and not from the code. The breakpoints of a date are the requested
  percentiles of the sorting column over the rows of that date where it is present, the
  NYSE rows only when \<open>nyse\<close> is set.
\<close>

definition compute_breakpoints :: "bool \<Rightarrow> string \<Rightarrow> real list \<Rightarrow> frame \<Rightarrow> nat \<Rightarrow> cell list" where
  "compute_breakpoints nyse c percentiles df d =
     (let xs = dropna (map (\<lambda>r. col r c)
                 (filter (\<lambda>r. date r = d \<and> (nyse \<longrightarrow> col r ''EXCHCD'' = Some 1)) df))
      in map (\<lambda>p. if xs = [] then None else Some (np_percentile xs p)) percentiles)"

text \<open>
  Every row receives the bucket of its value among the breakpoints of its date; with the
  annual option a row receives the bucket its stock had in June, carried over at most 11
  following rows of the stock.
\<close>

definition assign_buckets ::
  "string \<Rightarrow> string \<Rightarrow> bool \<Rightarrow> (nat \<Rightarrow> cell list) \<Rightarrow> frame \<Rightarrow> frame" where
  "assign_buckets c id_col annual breakpoints df =
     (let bucket = (\<lambda>r. bucket_of (col r c) (breakpoints (date r)))
      in if annual
         then map (\<lambda>(r, v). set_col id_col v r)
                (zip df (groupby_ffill 11
                   (map (\<lambda>r. (permno r, if month_of (date r) = 6 then bucket r else None)) df)))
         else map (\<lambda>r. set_col id_col (bucket r) r) df)"

text \<open>
  The rows that count are those with market equity, next return, every sort variable and
  every group present. For every date and every combination of groups that occur among
  them, the return formed is the value-weighted average of the next returns of the rows of
  that date in that combination; the table of these returns is moved down by one date.
\<close>

definition aggregate_weighted_returns :: "string list \<Rightarrow> string list \<Rightarrow> frame \<Rightarrow> pivot" where
  "aggregate_weighted_returns svs sgs df =
     (let rows = filter (\<lambda>r. col r ''me'' \<noteq> None \<and> col r ''retnm'' \<noteq> None
                          \<and> list_all (\<lambda>v. col r v \<noteq> None) svs
                          \<and> list_all (\<lambda>g. col r g \<noteq> None) sgs) (with_retnm df);
          dates = sort (remdups (map date rows));
          buckets = sort (remdups (map (\<lambda>r. map (\<lambda>g. the (col r g)) sgs) rows));
          formed = map (\<lambda>d. map (\<lambda>b. vw_return
                     (filter (\<lambda>r. date r = d \<and> map (\<lambda>g. col r g) sgs = map Some b) rows))
                     buckets) dates
      in \<lparr>index = dates, columns = buckets,
          cells = take (length dates) (replicate (length buckets) None # formed)\<rparr>)"

section \<open>Example panels\<close>









text \<open>
  Accounting data reindexed by month: firm 1 from June to December 2000 with total assets
  reported for June 2000, followed by firm 2 in March and April 1999 with nothing
  reported.
\<close>

definition compustat_panel :: frame where
  "compustat_panel =
     [mk_row 1 24005 [(''at'', 100)],
      mk_row 1 24006 [],
      mk_row 1 24007 [],
      mk_row 1 24008 [],
      mk_row 1 24009 [],
      mk_row 1 24010 [],
      mk_row 1 24011 [],
      mk_row 2 23990 [],
      mk_row 2 23991 []]"

text \<open>
  Two stocks in June, July and August 2000. The second panel differs from the first in
  the June value of \<open>x\<close> for stock 1 only, the third in its July value only.
\<close>

definition carry_panel :: frame where
  "carry_panel =
     [mk_row 1 24005 [(''x'', 3), (''me'', 10), (''ret'', 0)],
      mk_row 1 24006 [(''x'', 1), (''me'', 10), (''ret'', 1)],
      mk_row 1 24007 [(''x'', 1), (''me'', 10), (''ret'', 2)],
      mk_row 2 24005 [(''x'', 1), (''me'', 30), (''ret'', 0)],
      mk_row 2 24006 [(''x'', 2), (''me'', 30), (''ret'', 3)],
      mk_row 2 24007 [(''x'', 2), (''me'', 30), (''ret'', 2)]]"



text \<open>
  A notebook whose frame at address 0 is the first of these panels and whose
  \<open>sort_variables\<close> is \<open>['x']\<close>.
\<close>

definition carry_world :: world where
  "carry_world = \<lparr>frames = (\<lambda>a. [])(0 := carry_panel), module_sort_variables = Some [''x'']\<rparr>"

section \<open>Results for Topic 5\<close>

text \<open>
  C9. \<open>compute_cov_matrix\<close> raises ValueError for every \<open>shrink_pct\<close> outside
  \<open>[0, 1]\<close>, negative values included, whatever the dataframe. \<open>compute_mean_returns\<close>
  raises ValueError only when \<open>shrink_pct > 1\<close>; for every negative \<open>shrink_pct\<close> it
  does not raise and returns the unshrunk column means, the same result as for
  \<open>shrink_pct = 0\<close>.
\<close>

theorem C9_shrink_pct_validation:
  "(s < 0 \<or> 1 < s \<longrightarrow> compute_cov_matrix df s = Inl ValueError)
   \<and> (compute_mean_returns df s = Inl ValueError \<longrightarrow> 1 < s)
   \<and> (s < 0 \<longrightarrow> compute_mean_returns (Some d) s = Inr (df_mean d)
                \<and> compute_mean_returns (Some d) s = compute_mean_returns (Some d) 0)"
  by (auto simp: compute_cov_matrix_def compute_mean_returns_def Let_def
           split: option.splits if_splits)

theorem C9_shrink_pct_validation_witness:
  "compute_cov_matrix (Some [[Some 1, Some 3], [Some 2, Some 2]]) (- 1 / 2) = Inl ValueError
   \<and> compute_cov_matrix (Some [[Some 1, Some 3], [Some 2, Some 2]]) 2 = Inl ValueError
   \<and> compute_mean_returns (Some [[Some 1, Some 3], [Some 2, Some 2]]) 2 = Inl ValueError
   \<and> compute_mean_returns (Some [[Some 1, Some 3], [Some 2, Some 2]]) (- 1 / 2)
       = Inr [Some 2, Some 2]
   \<and> compute_mean_returns (Some [[Some 1, Some 3], [Some 2, Some 2]]) 0
       = Inr [Some 2, Some 2]"
  using C9_shrink_pct_validation
          [of "- 1 / 2" "Some [[Some 1, Some 3], [Some 2, Some 2]]"
              "[[Some 1, Some 3], [Some 2, Some 2]]"]
        C9_shrink_pct_validation
          [of 2 "Some [[Some 1, Some 3], [Some 2, Some 2]]"
              "[[Some 1, Some 3], [Some 2, Some 2]]"]
  by (simp add: compute_mean_returns_def df_mean_def pd_mean_def Let_def)

subsection \<open>Shrunk means\<close>

lemma fmul_one [simp]: "fmul c (Some 1) = c"
  by (cases c) (simp_all add: fmul_def)








subsection \<open>Shrunk covariances\<close>

lemma length_np_eye [simp]: "length (np_eye n) = n"
  by (simp add: np_eye_def)

lemma nth_np_eye: "i < n \<Longrightarrow> j < n \<Longrightarrow> np_eye n ! i ! j = (i = j)"
  by (simp add: np_eye_def)

lemma length_nth_np_eye [simp]: "i < n \<Longrightarrow> length (np_eye n ! i) = n"
  by (simp add: np_eye_def)

lemma length_df_cov [simp]: "length (df_cov d) = length d"
  by (simp add: df_cov_def)

lemma length_nth_df_cov [simp]: "i < length d \<Longrightarrow> length (df_cov d ! i) = length d"
  by (simp add: df_cov_def)

lemma scale_unmasked_entry:
  assumes "length m = n" "i < n" "j < n" "length (m ! i) = n"
  shows "scale_unmasked (np_eye n) k m ! i ! j
           = (if i = j then m ! i ! j else fmul (m ! i ! j) (Some k))"
  using assms by (simp add: scale_unmasked_def nth_np_eye)

lemma scale_unmasked_shape:
  assumes "length m = n"
  shows "length (scale_unmasked (np_eye n) k m) = n"
    and "i < n \<Longrightarrow> length (m ! i) = n \<Longrightarrow> length (scale_unmasked (np_eye n) k m ! i) = n"
  using assms by (simp_all add: scale_unmasked_def)

text \<open>
  C6. For every dataframe and every \<open>shrink_pct\<close> \<open>s\<close> in \<open>[0, 1]\<close>,
  \<open>compute_cov_matrix\<close> returns a square matrix of the shape of \<open>df.cov()\<close> whose
  diagonal entries are those of \<open>df.cov()\<close> and whose off-diagonal entries are those of
  \<open>df.cov()\<close> multiplied by \<open>1 - s\<close>; for \<open>s = 0\<close> it returns \<open>df.cov()\<close> itself.
\<close>

theorem C6_cov_shrinkage:
  assumes "0 \<le> s" and "s \<le> 1"
  shows "\<exists>M. compute_cov_matrix (Some d) s = Inr M
           \<and> length M = length d
           \<and> (\<forall>i<length d. length (M ! i) = length d
                \<and> (\<forall>j<length d. M ! i ! j =
                      (if i = j then df_cov d ! i ! j
                       else fmul (df_cov d ! i ! j) (Some (1 - s)))))
           \<and> compute_cov_matrix (Some d) 0 = Inr (df_cov d)"
proof (cases "s = 0")
  case True
  then show ?thesis by (simp add: compute_cov_matrix_def)
next
  case False
  with assms have pos: "0 < s" by simp
  have eq: "compute_cov_matrix (Some d) s
              = Inr (scale_unmasked (np_eye (length d)) (1 - s) (df_cov d))"
    using pos assms by (simp add: compute_cov_matrix_def Let_def)
  show ?thesis
    unfolding eq
    by (simp add: scale_unmasked_shape scale_unmasked_entry compute_cov_matrix_def)
qed

theorem C6_cov_shrinkage_witness:
  "(0::real) \<le> 1 / 2 \<and> (1::real) / 2 \<le> 1
   \<and> df_cov [[Some 1, Some 3], [Some 2, Some 6]] = [[Some 2, Some 4], [Some 4, Some 8]]
   \<and> compute_cov_matrix (Some [[Some 1, Some 3], [Some 2, Some 6]]) (1 / 2)
        = Inr [[Some 2, Some 2], [Some 2, Some 8]]
   \<and> compute_cov_matrix (Some [[Some 1, Some 3], [Some 2, Some 6]]) 0
        = Inr [[Some 2, Some 4], [Some 4, Some 8]]"
  using C6_cov_shrinkage [of "1 / 2" "[[Some 1, Some 3], [Some 2, Some 6]]"]
  by (simp add: compute_cov_matrix_def df_cov_def cov_pair_def complete_pairs_def Let_def
        np_eye_def scale_unmasked_def fmul_def)


section \<open>Results for Topic 4: sorting into portfolios\<close>

subsection \<open>The loop over the percentiles\<close>

lemma label_set_col [simp]: "label (set_col c v r) = label r"
  by (simp add: label_def set_col_def)

lemma date_set_col [simp]: "date (set_col c v r) = date r"
  by (simp add: set_col_def)

lemma permno_set_col [simp]: "permno (set_col c v r) = permno r"
  by (simp add: set_col_def)

lemma col_set_col [simp]: "col (set_col c v r) c' = (if c' = c then v else col r c')"
  by (simp add: set_col_def)




lemma label_step_row [simp]: "label (step_row c id_col bp g r) = label r"
  by (simp add: step_row_def)

lemma label_loop_row [simp]: "label (loop_row c id_col bps g r) = label r"
  by (induction bps arbitrary: g r) simp_all


lemma loop_row_snoc:
  "loop_row c id_col (bps @ [bp]) g r
     = step_row c id_col bp (g + length bps) (loop_row c id_col bps g r)"
  by (induction bps arbitrary: g r) simp_all




lemma set_col_set_col [simp]: "set_col c v (set_col c v' r) = set_col c v r"
  by (simp add: set_col_def)








subsection \<open>Forward fill with a limit\<close>

lemma ffill_from_length [simp]: "length (ffill_from lmt seen xs) = length xs"
  by (induction xs arbitrary: seen) simp_all








subsection \<open>The buckets of \<open>portfolio_sort\<close>\<close>





















section \<open>Results for Topic 4: value-weighted returns\<close>

subsection \<open>Sums by group\<close>

lemma keys_add_sums:
  "fst ` set (add_sums k v acc) = insert k (fst ` set acc)"
  by (induction k v acc rule: add_sums.induct) auto

lemma distinct_add_sums:
  "distinct (map fst acc) \<Longrightarrow> distinct (map fst (add_sums k v acc))"
proof (induction k v acc rule: add_sums.induct)
  case (1 k a b)
  then show ?case by simp
next
  case (2 k a b k' a' b' acc)
  then show ?case
    using keys_add_sums[of k "(a, b)" acc] by (auto simp: image_iff)
qed


lemma groupby_sum_foldl: "groupby_sum sgs df = foldl (sum_step sgs) [] df"
  by (simp add: groupby_sum_def)

lemma distinct_foldl_sums:
  "distinct (map fst acc) \<Longrightarrow> distinct (map fst (foldl (sum_step sgs) acc rows))"
proof (induction rows arbitrary: acc)
  case Nil
  then show ?case by simp
next
  case (Cons r rows)
  have "distinct (map fst (sum_step sgs acc r))"
    using Cons.prems by (auto simp: sum_step_def distinct_add_sums split: option.splits)
  then show ?case using Cons.IH by simp
qed



lemma distinct_groupby_sum: "distinct (map fst (groupby_sum sgs rows))"
  by (simp add: groupby_sum_foldl distinct_foldl_sums)


subsection \<open>The added columns and the mask\<close>



lemma shift_next_length [simp]: "length (shift_next xs) = length xs"
  by (induction xs rule: shift_next.induct) simp_all







subsection \<open>The unstacked and shifted result\<close>





















section \<open>Results for the Sharpe ratios\<close>









section \<open>Results for Topic 2: the reversal strategy\<close>

subsection \<open>Previous rows\<close>

lemma length_prev_rows_from [simp]: "length (prev_rows_from seen df) = length df"
  by (induction df arbitrary: seen) simp_all

lemma length_prev_rows [simp]: "length (prev_rows df) = length df"
  by (simp add: prev_rows_def)

lemma length_shift_prev_from [simp]: "length (shift_prev_from seen xs) = length xs"
  by (induction xs arbitrary: seen) auto



lemma prev_rows_from_map:
  assumes "\<And>r. permno (F r) = permno r"
  shows "prev_rows_from (\<lambda>p. map_option F (seen p)) (map F df)
           = map (map_option F) (prev_rows_from seen df)"
proof (induction df arbitrary: seen)
  case Nil
  then show ?case by simp
next
  case (Cons r rs)
  have "(\<lambda>p. map_option F (seen p))(permno r := Some (F r))
          = (\<lambda>p. map_option F ((seen(permno r := Some r)) p))"
    by (simp add: fun_eq_iff)
  note e = this
  show ?case
    unfolding list.map prev_rows_from.simps assms e Cons.IH by (simp add: fun_upd_def)
qed

lemma prev_rows_map:
  assumes "\<And>r. permno (F r) = permno r"
  shows "prev_rows (map F df) = map (map_option F) (prev_rows df)"
  unfolding prev_rows_def using prev_rows_from_map[OF assms, of "\<lambda>p. None" df] by simp


subsection \<open>The frame after each cell\<close>


lemma position_row_simps [simp]:
  "label (position_row df r) = label r"
  "date (position_row df r) = date r"
  "permno (position_row df r) = permno r"
  "col (position_row df r) ''ret'' = col r ''ret''"
  "col (position_row df r) ''me'' = col r ''me''"
  "col (position_row df r) ''long'' = as_int (is_long df r)"
  "col (position_row df r) ''short'' = as_int (is_short df r)"
  "col (position_row df r) ''position'' = fsub (as_int (is_long df r)) (as_int (is_short df r))"
  by (simp_all add: position_row_def Let_def is_long_def is_short_def)



lemma label_drop_columns [simp]: "label (drop_columns cs r) = label r"
  unfolding drop_columns_def by (induction cs arbitrary: r) simp_all

lemma weighted_row_simps [simp]:
  "label (weighted_row df r) = label r"
  "date (weighted_row df r) = date r"
  "permno (weighted_row df r) = permno r"
  "col (weighted_row df r) ''ret'' = col r ''ret''"
  "col (weighted_row df r) ''me'' = col r ''me''"
  "col (weighted_row df r) ''long'' = holding_weight is_long df r"
  "col (weighted_row df r) ''short'' = holding_weight is_short df r"
  "col (weighted_row df r) ''position'' = fsub (as_int (is_long df r)) (as_int (is_short df r))"
  by (simp_all add: weighted_row_def drop_columns_def label_def)





subsection \<open>The equal-weighted returns in closed form\<close>




subsection \<open>Long minus short\<close>






section \<open>Results for Topic 2: the timing of information\<close>

subsection \<open>No lookahead in the equal-weighted strategy\<close>















subsection \<open>The lagged accounting data\<close>

text \<open>
  The fill that follows the six-row shift is not grouped by PERMNO. The rows of firm 2,
  in March and April 1999, have nothing to read after the shift and take the total
  assets that firm 1, the firm before it in the frame, reported for June 2000.
\<close>

lemma lag_compustat_crosses_firms:
  "map label compustat_panel
     = [(1, 24005), (1, 24006), (1, 24007), (1, 24008), (1, 24009), (1, 24010), (1, 24011),
        (2, 23990), (2, 23991)]
   \<and> column ''at'' compustat_panel = [Some 100, None, None, None, None, None, None, None, None]
   \<and> column ''at'' (lag_compustat ''at'' compustat_panel)
       = [None, None, None, None, None, None, Some 100, Some 100, Some 100]"
  by (simp add: compustat_panel_def lag_compustat_def shift_by_def ffill_def groupby_ffill_def
      ffill_out_def ffill_step_def mk_row_def label_def column_def set_col_def)

section \<open>Results for Topic 4: dependence on earlier months\<close>

subsection \<open>What a sort depends on\<close>









end
